theory Spec2Isabelle
  imports Main "HOL-Library.Sublist"
begin

section \<open>Event scraper: a shallow embedding of scraper.py\<close>

text \<open>
  The development follows \<^verbatim>\<open>src/scraper.py\<close>: the two event sources, the filter
  engine, the location and month grouping, the calendar generator and the aggregator.
  Python strings are modelled as \<^typ>\<open>string\<close> (lists of 8-bit characters), so the text
  is ASCII text: whitespace and letter case are the ASCII ones. A Python dict with a fixed
  set of keys is a record whose fields are options, \<open>None\<close> standing for a key that is
  absent (or, for \<open>start\<close> and \<open>end\<close>, whose value is Python's \<open>None\<close>).
  Exceptions are values of the type \<open>error\<close>; a computation that may raise returns
  \<open>error + 'a\<close>. Library calls whose result the program does not determine (the
  date parser, \<open>hash\<close>, the clock, \<open>urljoin\<close>, \<open>strftime\<close>) are parameters.
\<close>

subsection \<open>Python strings\<close>

definition isspace :: "char \<Rightarrow> bool" where
  "isspace c = (c \<in> set [CHR 0x09, CHR 0x0A, CHR 0x0B, CHR 0x0C, CHR 0x0D,
                           CHR 0x1C, CHR 0x1D, CHR 0x1E, CHR 0x1F, CHR 0x20])"

definition strip :: "string \<Rightarrow> string" where
  "strip s = rev (dropWhile isspace (rev (dropWhile isspace s)))"

text \<open>\<open>str.lower\<close> on ASCII text: the 26 capital letters are replaced.\<close>

definition lower_char :: "char \<Rightarrow> char" where
  "lower_char c =
     (case map_of (zip ''ABCDEFGHIJKLMNOPQRSTUVWXYZ'' ''abcdefghijklmnopqrstuvwxyz'') c of
        None \<Rightarrow> c
      | Some d \<Rightarrow> d)"

definition lower :: "string \<Rightarrow> string" where
  "lower s = map lower_char s"

text \<open>\<open>startswith t p\<close> is Python's \<open>t.startswith(p)\<close>.\<close>

fun startswith :: "string \<Rightarrow> string \<Rightarrow> bool" where
  "startswith t [] = True"
| "startswith [] (c # p) = False"
| "startswith (d # t) (c # p) = (d = c \<and> startswith t p)"

text \<open>\<open>py_in s t\<close> is Python's \<open>s in t\<close> on strings: \<open>s\<close> occurs in \<open>t\<close> as a
  contiguous run of characters. The empty string occurs in every string.\<close>

fun py_in :: "string \<Rightarrow> string \<Rightarrow> bool" where
  "py_in s [] = (s = [])"
| "py_in s (c # t) = (startswith (c # t) s \<or> py_in s t)"

text \<open>\<open>split d s\<close> is Python's \<open>s.split(d)\<close> for a one-character separator: the
  result always has at least one segment.\<close>

fun split :: "char \<Rightarrow> string \<Rightarrow> string list" where
  "split d [] = [[]]"
| "split d (c # s) =
     (if c = d then [] # split d s
      else (case split d s of [] \<Rightarrow> [[c]] | p # ps \<Rightarrow> (c # p) # ps))"

text \<open>\<open>join sep ps\<close> is Python's \<open>sep.join(ps)\<close>.\<close>

fun join :: "string \<Rightarrow> string list \<Rightarrow> string" where
  "join sep [] = []"
| "join sep [p] = p"
| "join sep (p # q # ps) = p @ sep @ join sep (q # ps)"

subsection \<open>Exceptions and timestamps\<close>

datatype error = TypeError | AttributeError | JSONDecodeError | RequestException string
  | SelectorSyntaxError

text \<open>
  A \<open>datetime\<close> is either offset-naive or offset-aware. \<open>wall\<close> is the reading of
  the local clock (in microseconds from a fixed origin), \<open>utcoffset\<close> the offset of an
  aware value. Python orders two naive values by their wall clock and two aware values by
  their instant (wall clock minus offset); ordering a naive against an aware value raises
  \<open>TypeError\<close>. A datetime object is always truthy.
\<close>

datatype datetime = Naive (wall: int) | Aware (wall: int) (utcoffset: int)

fun dt_lt :: "datetime \<Rightarrow> datetime \<Rightarrow> error + bool" where
  "dt_lt (Naive a) (Naive b) = Inr (a < b)"
| "dt_lt (Aware a x) (Aware b y) = Inr (a - x < b - y)"
| "dt_lt (Naive a) (Aware b y) = Inl TypeError"
| "dt_lt (Aware a x) (Naive b) = Inl TypeError"

definition dt_gt :: "datetime \<Rightarrow> datetime \<Rightarrow> error + bool" where
  "dt_gt a b = dt_lt b a"

text \<open>Python's \<open>==\<close> on datetimes: a naive and an aware value are never equal.\<close>

fun dt_eq :: "datetime \<Rightarrow> datetime \<Rightarrow> bool" where
  "dt_eq (Naive a) (Naive b) = (a = b)"
| "dt_eq (Aware a x) (Aware b y) = (a - x = b - y)"
| "dt_eq (Naive a) (Aware b y) = False"
| "dt_eq (Aware a x) (Naive b) = False"

fun is_aware :: "datetime \<Rightarrow> bool" where
  "is_aware (Naive a) = False"
| "is_aware (Aware a x) = True"

subsection \<open>Event records\<close>

text \<open>
  The event dict. Both sources always set \<open>title\<close>, \<open>location\<close>, \<open>description\<close> and
  \<open>url\<close> to a string; the code nevertheless reads them with \<open>dict.get\<close> and a
  default, which applies only when the key is absent.
\<close>

record event =
  title :: "string option"
  start :: "datetime option"
  end_time :: "datetime option"
  location :: "string option"
  description :: "string option"
  url :: "string option"

text \<open>\<open>dict.get(key, default)\<close>.\<close>

definition get_or :: "'a option \<Rightarrow> 'a \<Rightarrow> 'a" where
  "get_or v d = (case v of None \<Rightarrow> d | Some x \<Rightarrow> x)"

text \<open>Truthiness of \<open>event.get(key)\<close> for a text field: present and non-empty.\<close>

definition truthy_text :: "string option \<Rightarrow> bool" where
  "truthy_text v = (case v of None \<Rightarrow> False | Some s \<Rightarrow> s \<noteq> [])"

subsection \<open>Location grouping (EventFilter.get\_location\_groups)\<close>

definition normalize_location :: "string \<Rightarrow> string" where
  "normalize_location loc0 =
     (let loc = strip loc0 in
      if CHR '','' \<in> set loc then
        (let parts = map strip (split CHR '','' loc) in
         if parts \<noteq> [] then last parts else loc)
      else loc)"

definition location_key :: "event \<Rightarrow> string" where
  "location_key e = normalize_location (get_or (location e) ''Unknown'')"

text \<open>A dict of lists is an association list in insertion order, as Python keeps it.\<close>

fun group_append :: "string \<Rightarrow> 'a \<Rightarrow> (string \<times> 'a list) list \<Rightarrow> (string \<times> 'a list) list" where
  "group_append k e [] = [(k, [e])]"
| "group_append k e ((k', es) # g) =
     (if k' = k then (k', es @ [e]) # g else (k', es) # group_append k e g)"

fun get_location_groups_from :: "(string \<times> event list) list \<Rightarrow> event list \<Rightarrow> (string \<times> event list) list" where
  "get_location_groups_from groups [] = groups"
| "get_location_groups_from groups (e # es) =
     get_location_groups_from (group_append (location_key e) e groups) es"

definition get_location_groups :: "event list \<Rightarrow> (string \<times> event list) list" where
  "get_location_groups events = get_location_groups_from [] events"

subsection \<open>Filter engine (EventFilter)\<close>

text \<open>
  The filter configuration. A section that is absent from the configuration is \<open>None\<close>
  (the code reads it as \<open>config.get(section, {})\<close>); a missing \<open>enabled\<close> is
  \<open>False\<close>, a missing \<open>include\<close> or \<open>exclude\<close> the empty list. The field
  \<open>keywords_cfg\<close> is the section \<open>keywords\<close>.
\<close>

record term_section =
  enabled :: bool
  include_terms :: "string list"
  exclude_terms :: "string list"

record date_section =
  date_enabled :: bool
  start_date :: "string option"
  end_date :: "string option"

record filter_config =
  locations :: "term_section option"
  keywords_cfg :: "term_section option"
  date_range :: "date_section option"

definition section_enabled :: "term_section option \<Rightarrow> bool" where
  "section_enabled sec = (case sec of None \<Rightarrow> False | Some s \<Rightarrow> enabled s)"

definition section_include :: "term_section option \<Rightarrow> string list" where
  "section_include sec = (case sec of None \<Rightarrow> [] | Some s \<Rightarrow> include_terms s)"

definition section_exclude :: "term_section option \<Rightarrow> string list" where
  "section_exclude sec = (case sec of None \<Rightarrow> [] | Some s \<Rightarrow> exclude_terms s)"

text \<open>\<open>any(t.lower() in text for t in terms)\<close>.\<close>

definition any_in :: "string list \<Rightarrow> string \<Rightarrow> bool" where
  "any_in terms txt = list_ex (\<lambda>t. py_in (lower t) txt) terms"

definition location_text :: "event \<Rightarrow> string" where
  "location_text e = lower (get_or (location e) [])"

definition keyword_text :: "event \<Rightarrow> string" where
  "keyword_text e = lower (get_or (title e) [] @ '' '' @ get_or (description e) [])"

text \<open>The loop of \<open>_filter_by_location\<close>: \<open>continue\<close> skips the record,
  \<open>filtered.append\<close> keeps it.\<close>

fun location_loop :: "string list \<Rightarrow> string list \<Rightarrow> event list \<Rightarrow> event list" where
  "location_loop inc exc [] = []"
| "location_loop inc exc (e # es) =
     (if any_in exc (location_text e) then location_loop inc exc es
      else if inc \<noteq> [] then
        (if any_in inc (location_text e) then e # location_loop inc exc es
         else location_loop inc exc es)
      else e # location_loop inc exc es)"

definition filter_by_location :: "filter_config \<Rightarrow> event list \<Rightarrow> event list" where
  "filter_by_location cfg events =
     location_loop (section_include (locations cfg)) (section_exclude (locations cfg)) events"

fun keywords_loop :: "string list \<Rightarrow> string list \<Rightarrow> event list \<Rightarrow> event list" where
  "keywords_loop inc exc [] = []"
| "keywords_loop inc exc (e # es) =
     (if any_in exc (keyword_text e) then keywords_loop inc exc es
      else if inc \<noteq> [] then
        (if any_in inc (keyword_text e) then e # keywords_loop inc exc es
         else keywords_loop inc exc es)
      else e # keywords_loop inc exc es)"

definition filter_by_keywords :: "filter_config \<Rightarrow> event list \<Rightarrow> event list" where
  "filter_by_keywords cfg events =
     keywords_loop (section_include (keywords_cfg cfg)) (section_exclude (keywords_cfg cfg)) events"

text \<open>
  The date parser is a parameter: \<open>parse s = None\<close> when \<open>parser.parse(s)\<close>
  raises. A bound is read only when the configured string is present and non-empty, and
  an exception of the parser leaves it \<open>None\<close>.
\<close>

definition parse_bound :: "(string \<Rightarrow> datetime option) \<Rightarrow> string option \<Rightarrow> datetime option" where
  "parse_bound parse v =
     (case v of None \<Rightarrow> None | Some s \<Rightarrow> if s = [] then None else parse s)"

text \<open>\<open>start_date and event_date < start_date\<close>, and
  \<open>end_date and event_date > end_date\<close>.\<close>

definition before_bound :: "datetime option \<Rightarrow> datetime \<Rightarrow> error + bool" where
  "before_bound sd d = (case sd of None \<Rightarrow> Inr False | Some s \<Rightarrow> dt_lt d s)"

definition after_bound :: "datetime option \<Rightarrow> datetime \<Rightarrow> error + bool" where
  "after_bound ed d = (case ed of None \<Rightarrow> Inr False | Some t \<Rightarrow> dt_gt d t)"

fun date_range_loop :: "datetime option \<Rightarrow> datetime option \<Rightarrow> event list \<Rightarrow> error + event list" where
  "date_range_loop sd ed [] = Inr []"
| "date_range_loop sd ed (e # es) =
     (case start e of
        None \<Rightarrow> date_range_loop sd ed es
      | Some d \<Rightarrow>
         (case before_bound sd d of
            Inl x \<Rightarrow> Inl x
          | Inr b \<Rightarrow>
             if b then date_range_loop sd ed es
             else (case after_bound ed d of
                     Inl x \<Rightarrow> Inl x
                   | Inr a \<Rightarrow>
                      if a then date_range_loop sd ed es
                      else (case date_range_loop sd ed es of
                              Inl x \<Rightarrow> Inl x
                            | Inr r \<Rightarrow> Inr (e # r)))))"

definition date_section_enabled :: "date_section option \<Rightarrow> bool" where
  "date_section_enabled sec = (case sec of None \<Rightarrow> False | Some s \<Rightarrow> date_enabled s)"

definition lower_bound :: "(string \<Rightarrow> datetime option) \<Rightarrow> filter_config \<Rightarrow> datetime option" where
  "lower_bound parse cfg =
     (case date_range cfg of None \<Rightarrow> None | Some s \<Rightarrow> parse_bound parse (start_date s))"

definition upper_bound :: "(string \<Rightarrow> datetime option) \<Rightarrow> filter_config \<Rightarrow> datetime option" where
  "upper_bound parse cfg =
     (case date_range cfg of None \<Rightarrow> None | Some s \<Rightarrow> parse_bound parse (end_date s))"

definition filter_by_date_range ::
  "(string \<Rightarrow> datetime option) \<Rightarrow> filter_config \<Rightarrow> event list \<Rightarrow> error + event list" where
  "filter_by_date_range parse cfg events =
     date_range_loop (lower_bound parse cfg) (upper_bound parse cfg) events"

text \<open>\<open>filter_events\<close>: the variable \<open>filtered\<close> is reassigned by each enabled
  stage; an exception of the date-range stage leaves the function.\<close>

definition filter_events ::
  "(string \<Rightarrow> datetime option) \<Rightarrow> filter_config \<Rightarrow> event list \<Rightarrow> error + event list" where
  "filter_events parse cfg events =
     (let filtered = events;
          filtered = (if section_enabled (locations cfg)
                      then filter_by_location cfg filtered else filtered);
          filtered = (if section_enabled (keywords_cfg cfg)
                      then filter_by_keywords cfg filtered else filtered)
      in if date_section_enabled (date_range cfg)
         then filter_by_date_range parse cfg filtered else Inr filtered)"

subsection \<open>Library calls taken as parameters\<close>

text \<open>
  \<open>parse\<close> is \<open>dateutil.parser.parse\<close> and \<open>parse_fuzzy\<close> the same with
  \<open>fuzzy=True\<close> (\<open>None\<close> when the call raises); \<open>hash\<close> is Python's \<open>hash\<close>
  on strings, \<open>now\<close> the reading of \<open>datetime.now()\<close>, \<open>str_datetime\<close> is
  \<open>str\<close> on a datetime, \<open>strftime_Ym\<close> is \<open>strftime('%Y-%m')\<close> and
  \<open>urljoin\<close> is \<open>urllib.parse.urljoin\<close>.
\<close>

record pylib =
  parse :: "string \<Rightarrow> datetime option"
  parse_fuzzy :: "string \<Rightarrow> datetime option"
  hash :: "string \<Rightarrow> int"
  now :: datetime
  str_datetime :: "datetime \<Rightarrow> string"
  strftime_Ym :: "datetime \<Rightarrow> string"
  urljoin :: "string \<Rightarrow> string \<Rightarrow> string"

text \<open>Decimal notation of an integer, as an f-string prints it.\<close>

fun str_nat :: "nat \<Rightarrow> string" where
  "str_nat n =
     (if n < 10 then [''0123456789'' ! n]
      else str_nat (n div 10) @ [''0123456789'' ! (n mod 10)])"

declare str_nat.simps [simp del]

definition str_int :: "int \<Rightarrow> string" where
  "str_int i = (if i < 0 then CHR ''-'' # str_nat (nat (- i)) else str_nat (nat i))"

subsection \<open>Calendar generator (CalendarGenerator.generate)\<close>

text \<open>
  The calendar object that \<open>generate\<close> builds before the icalendar library serialises
  it: the properties added to the calendar and, in order, the event components added to
  it, each a list of the properties added to the event.
\<close>

datatype prop_value = Text string | DateTime datetime

type_synonym component = "(string \<times> prop_value) list"

record calendar =
  properties :: "(string \<times> prop_value) list"
  subcomponents :: "component list"

text \<open>The body of the loop of \<open>generate\<close> for a record whose \<open>start\<close> is \<open>d\<close>.\<close>

definition make_event :: "pylib \<Rightarrow> event \<Rightarrow> datetime \<Rightarrow> component" where
  "make_event lib e d =
     [(''summary'', Text (get_or (title e) ''Untitled Event'')),
      (''dtstart'', DateTime d)]
     @ (case end_time e of None \<Rightarrow> [] | Some t \<Rightarrow> [(''dtend'', DateTime t)])
     @ (if truthy_text (location e) then [(''location'', Text (get_or (location e) []))] else [])
     @ (if truthy_text (description e)
        then [(''description'', Text (get_or (description e) []))] else [])
     @ (if truthy_text (url e) then [(''url'', Text (get_or (url e) []))] else [])
     @ [(''uid'', Text (str_int (hash lib (get_or (title e) [] @ str_datetime lib d))
                        @ ''@event-aggregator'')),
        (''dtstamp'', DateTime (now lib))]"

fun generate_loop :: "pylib \<Rightarrow> event list \<Rightarrow> component list" where
  "generate_loop lib [] = []"
| "generate_loop lib (e # es) =
     (case start e of
        None \<Rightarrow> generate_loop lib es
      | Some d \<Rightarrow> make_event lib e d # generate_loop lib es)"

text \<open>\<open>generate self_name events calendar_name\<close>: \<open>self_name\<close> is the name the
  generator was built with, \<open>calendar_name\<close> the optional argument.\<close>

definition generate :: "pylib \<Rightarrow> string \<Rightarrow> event list \<Rightarrow> string option \<Rightarrow> calendar" where
  "generate lib self_name events calendar_name =
     \<lparr>properties =
        [(''prodid'', Text ''-//Event Aggregator//EN''),
         (''version'', Text ''2.0''),
         (''x-wr-calname'',
            Text (if truthy_text calendar_name then get_or calendar_name [] else self_name)),
         (''x-wr-timezone'', Text ''UTC'')],
      subcomponents = generate_loop lib events\<rparr>"

text \<open>The summaries of the event blocks of a calendar.\<close>

definition summaries :: "calendar \<Rightarrow> prop_value list" where
  "summaries cal = map snd (filter (\<lambda>p. fst p = ''summary'') (concat (subcomponents cal)))"

subsection \<open>Month grouping (EventAggregator.\_group\_by\_month)\<close>

fun group_by_month_from :: "pylib \<Rightarrow> (string \<times> event list) list \<Rightarrow> event list \<Rightarrow> (string \<times> event list) list" where
  "group_by_month_from lib groups [] = groups"
| "group_by_month_from lib groups (e # es) =
     (case start e of
        None \<Rightarrow> group_by_month_from lib groups es
      | Some d \<Rightarrow> group_by_month_from lib (group_append (strftime_Ym lib d) e groups) es)"

definition group_by_month :: "pylib \<Rightarrow> event list \<Rightarrow> (string \<times> event list) list" where
  "group_by_month lib events = group_by_month_from lib [] events"

subsection \<open>Fetched pages\<close>

text \<open>
  What the sources see of the network and of the HTML parser. \<open>web u\<close> is the outcome
  of \<open>requests.get\<close>, \<open>raise_for_status\<close> and the construction of the
  BeautifulSoup tree for the address \<open>u\<close>: an exception or a tree. A tree answers
  \<open>select\<close> with the matching elements (or raises on a malformed selector) and
  \<open>find_all('script', type='application/ld+json')\<close> with its script blocks. An element
  answers \<open>select_one\<close> with the first matching node, with no node, or raises. A node
  has its text and, possibly, an \<open>href\<close> attribute.
\<close>

record node =
  node_text :: string
  node_href :: "string option"

type_synonym element = "string \<Rightarrow> error + node option"

text \<open>
  Structured data. A script block is the outcome of \<open>json.loads(script.string)\<close>: an
  exception, a list of items, or one item; an item is a JSON object or some other JSON
  value, which has no \<open>get\<close>. The members whose values the program copies into the record
  or hands to the date parser (\<open>@type\<close>, \<open>name\<close>, \<open>startDate\<close>, \<open>endDate\<close>,
  \<open>description\<close>, \<open>url\<close>, the \<open>name\<close> of a location) are taken at the type schema.org
  gives them, text; \<open>location\<close> and \<open>address\<close> are text or an object. The two parts of an
  address, \<open>streetAddress\<close> and \<open>addressLocality\<close>, are arbitrary JSON values: the program
  tests them for truth and joins them as text, and joining a value that is not text raises.
\<close>

datatype json =
  JNull
| JBool bool
| JNumber int
| JString string
| JArray "json list"
| JObject "(string \<times> json) list"

text \<open>Python's truth value of a decoded JSON value (a number is taken as an integer).\<close>

fun truthy :: "json \<Rightarrow> bool" where
  "truthy JNull = False"
| "truthy (JBool b) = b"
| "truthy (JNumber n) = (n \<noteq> 0)"
| "truthy (JString s) = (s \<noteq> [])"
| "truthy (JArray xs) = (xs \<noteq> [])"
| "truthy (JObject kvs) = (kvs \<noteq> [])"

datatype ld_address =
  AddressObject (streetAddress: "json option") (addressLocality: "json option")
| AddressText string

datatype ld_location =
  LocationObject (location_name: "string option") (address: "ld_address option")
| LocationText string

record ld_object =
  at_type :: "string option"
  name :: "string option"
  startDate :: "string option"
  endDate :: "string option"
  ld_location :: "ld_location option"
  ld_description :: "string option"
  ld_url :: "string option"

datatype ld_item = Object ld_object | NotObject

datatype ld_data = DataList "ld_item list" | DataItem ld_item

type_synonym script = "error + ld_data"

record soup =
  select :: "string \<Rightarrow> error + element list"
  ld_scripts :: "script list"

type_synonym web = "string \<Rightarrow> error + soup"

datatype diagnostic = ErrorParsingEvent error | ErrorFetching string error

definition bind_err :: "error + 'a \<Rightarrow> ('a \<Rightarrow> error + 'b) \<Rightarrow> error + 'b" where
  "bind_err m f = (case m of Inl x \<Rightarrow> Inl x | Inr v \<Rightarrow> f v)"

subsection \<open>Selector-based source (GenericHTMLSource)\<close>

type_synonym selectors = "string \<Rightarrow> string option"

definition extract_text :: "element \<Rightarrow> string option \<Rightarrow> error + string" where
  "extract_text elem selector =
     (if \<not> truthy_text selector then Inr []
      else bind_err (elem (get_or selector []))
             (\<lambda>found. case found of None \<Rightarrow> Inr [] | Some n \<Rightarrow> Inr (strip (node_text n))))"

definition extract_date :: "pylib \<Rightarrow> element \<Rightarrow> string option \<Rightarrow> error + datetime option" where
  "extract_date lib elem selector =
     bind_err (extract_text elem selector)
       (\<lambda>txt. if txt = [] then Inr None else Inr (parse_fuzzy lib txt))"

definition extract_url :: "pylib \<Rightarrow> string \<Rightarrow> element \<Rightarrow> string option \<Rightarrow> error + string" where
  "extract_url lib self_url elem selector =
     (if \<not> truthy_text selector then Inr []
      else bind_err (elem (get_or selector []))
             (\<lambda>found. case found of
                None \<Rightarrow> Inr []
              | Some n \<Rightarrow>
                 if truthy_text (node_href n) then
                   (let href = get_or (node_href n) [] in
                    if startswith href ''/'' then Inr (urljoin lib self_url href)
                    else Inr href)
                 else Inr []))"

text \<open>The dict built inside the inner \<open>try\<close> of \<open>fetch_events\<close>.\<close>

definition html_event :: "pylib \<Rightarrow> string \<Rightarrow> selectors \<Rightarrow> element \<Rightarrow> error + event" where
  "html_event lib self_url sel elem =
     bind_err (extract_text elem (sel ''title'')) (\<lambda>t.
     bind_err (extract_date lib elem (sel ''date'')) (\<lambda>s.
     bind_err (extract_text elem (sel ''location'')) (\<lambda>l.
     bind_err (extract_text elem (sel ''description'')) (\<lambda>d.
     bind_err (extract_url lib self_url elem (sel ''url'')) (\<lambda>u.
       Inr \<lparr>title = Some t, start = s, end_time = None, location = Some l,
            description = Some d, url = Some u\<rparr>)))))"

text \<open>The loop over the container elements: an exception of an element is caught,
  reported and the loop continues.\<close>

fun html_loop :: "pylib \<Rightarrow> string \<Rightarrow> selectors \<Rightarrow> element list \<Rightarrow> event list \<times> diagnostic list" where
  "html_loop lib self_url sel [] = ([], [])"
| "html_loop lib self_url sel (elem # elems) =
     (let (events, out) = html_loop lib self_url sel elems in
      case html_event lib self_url sel elem of
        Inl x \<Rightarrow> (events, ErrorParsingEvent x # out)
      | Inr ev \<Rightarrow>
         if truthy_text (title ev) \<and> start ev \<noteq> None then (ev # events, out)
         else (events, out))"

text \<open>The body of the outer \<open>try\<close>, and \<open>fetch_events\<close> with its handler. When the
  body raises, the loop has not started and \<open>events\<close> is still empty.\<close>

definition html_try :: "pylib \<Rightarrow> web \<Rightarrow> string \<Rightarrow> selectors \<Rightarrow> error + event list \<times> diagnostic list" where
  "html_try lib w self_url sel =
     bind_err (w self_url) (\<lambda>sp.
     bind_err (select sp (get_or (sel ''container'') ''.event'')) (\<lambda>elems.
       Inr (html_loop lib self_url sel elems)))"

definition html_fetch_events :: "pylib \<Rightarrow> web \<Rightarrow> string \<Rightarrow> selectors \<Rightarrow> error + event list \<times> diagnostic list" where
  "html_fetch_events lib w self_url sel =
     (case html_try lib w self_url sel of
        Inl x \<Rightarrow> Inr ([], [ErrorFetching self_url x])
      | Inr r \<Rightarrow> Inr r)"

subsection \<open>Structured-metadata source (SchemaOrgSource)\<close>

text \<open>\<open>', '.join(...)\<close>: every value joined must be text, else \<open>TypeError\<close>.\<close>

fun texts :: "json list \<Rightarrow> error + string list" where
  "texts [] = Inr []"
| "texts (JString s # ps) = bind_err (texts ps) (\<lambda>r. Inr (s # r))"
| "texts (p # ps) = Inl TypeError"

text \<open>\<open>_extract_location\<close> applied to \<open>data.get('location', {})\<close>.\<close>

definition extract_location :: "ld_location option \<Rightarrow> error + string" where
  "extract_location loc =
     (case loc of
        None \<Rightarrow> Inr []
      | Some (LocationText s) \<Rightarrow> Inr s
      | Some (LocationObject nm addr) \<Rightarrow>
         if truthy_text nm then Inr (get_or nm [])
         else (case addr of
                 Some (AddressObject st lo) \<Rightarrow>
                   bind_err (texts (filter truthy [get_or st (JString []), get_or lo (JString [])]))
                     (\<lambda>parts. Inr (join '', '' parts))
               | Some (AddressText s) \<Rightarrow> Inr s
               | None \<Rightarrow> Inr []))"

definition parse_date :: "pylib \<Rightarrow> string option \<Rightarrow> datetime option" where
  "parse_date lib v = (if truthy_text v then parse lib (get_or v []) else None)"

text \<open>\<open>_parse_event\<close>: the two dates are parsed under their own \<open>try\<close>; the location is
  extracted while the dict is built, and its exception leaves \<open>_parse_event\<close>.\<close>

definition parse_event :: "pylib \<Rightarrow> ld_object \<Rightarrow> error + event" where
  "parse_event lib data =
     (let start_date = parse_date lib (startDate data);
          end_date = parse_date lib (endDate data)
      in bind_err (extract_location (ld_location data)) (\<lambda>loc.
           Inr \<lparr>title = Some (get_or (name data) []),
                start = start_date,
                end_time = end_date,
                location = Some loc,
                description = Some (get_or (ld_description data) []),
                url = Some (get_or (ld_url data) [])\<rparr>))"

text \<open>The list comprehension
  \<open>[item for item in data if item.get('@type') == 'Event']\<close>: an item that is not an
  object has no \<open>get\<close>, and the comprehension raises before anything is appended.\<close>

fun event_items :: "ld_item list \<Rightarrow> error + ld_object list" where
  "event_items [] = Inr []"
| "event_items (NotObject # items) = Inl AttributeError"
| "event_items (Object ob # items) =
     bind_err (event_items items)
       (\<lambda>r. Inr (if at_type ob = Some ''Event'' then ob # r else r))"

text \<open>The loop \<open>for event_data in events_data: events.append(self._parse_event(event_data))\<close>:
  the events it appends, and the exception that ended it, if one did. The events appended
  before the exception stay in \<open>events\<close>.\<close>

fun append_events :: "pylib \<Rightarrow> ld_object list \<Rightarrow> event list \<times> error option" where
  "append_events lib [] = ([], None)"
| "append_events lib (event_data # events_data) =
     (case parse_event lib event_data of
        Inl x \<Rightarrow> ([], Some x)
      | Inr ev \<Rightarrow>
         (let (events, raised) = append_events lib events_data in (ev # events, raised)))"

text \<open>The body of the inner \<open>try\<close> for one script block: the events it appends to
  \<open>events\<close> and the exception it raised, if any.\<close>

definition script_events :: "pylib \<Rightarrow> script \<Rightarrow> event list \<times> error option" where
  "script_events lib sc =
     (case sc of
        Inl x \<Rightarrow> ([], Some x)
      | Inr (DataList items) \<Rightarrow>
         (case event_items items of
            Inl x \<Rightarrow> ([], Some x)
          | Inr events_data \<Rightarrow> append_events lib events_data)
      | Inr (DataItem NotObject) \<Rightarrow> ([], Some AttributeError)
      | Inr (DataItem (Object ob)) \<Rightarrow>
         if at_type ob = Some ''Event'' then append_events lib [ob] else ([], None))"

text \<open>The loop over the script blocks: the handler of the inner \<open>try\<close> drops the
  exception of a block and goes on with the next block.\<close>

fun schema_loop :: "pylib \<Rightarrow> script list \<Rightarrow> event list" where
  "schema_loop lib [] = []"
| "schema_loop lib (sc # scs) = fst (script_events lib sc) @ schema_loop lib scs"

definition schema_fetch_events :: "pylib \<Rightarrow> web \<Rightarrow> string \<Rightarrow> error + event list \<times> diagnostic list" where
  "schema_fetch_events lib w self_url =
     (case bind_err (w self_url) (\<lambda>sp. Inr (schema_loop lib (ld_scripts sp), [])) of
        Inl x \<Rightarrow> Inr ([], [ErrorFetching self_url x])
      | Inr r \<Rightarrow> Inr r)"

subsection \<open>Aggregator (EventAggregator)\<close>

datatype source = GenericHTMLSource string selectors | SchemaOrgSource string

fun fetch_events :: "pylib \<Rightarrow> web \<Rightarrow> source \<Rightarrow> error + event list \<times> diagnostic list" where
  "fetch_events lib w (GenericHTMLSource u sel) = html_fetch_events lib w u sel"
| "fetch_events lib w (SchemaOrgSource u) = schema_fetch_events lib w u"

fun collect_events :: "pylib \<Rightarrow> web \<Rightarrow> source list \<Rightarrow> error + event list" where
  "collect_events lib w [] = Inr []"
| "collect_events lib w (src # srcs) =
     bind_err (fetch_events lib w src) (\<lambda>(events, out).
     bind_err (collect_events lib w srcs) (\<lambda>rest. Inr (events @ rest)))"

record output_config =
  main_calendar :: "string option"
  by_location :: bool
  by_month :: bool

record config =
  calendar_name :: "string option"
  filters :: "filter_config option"
  outputs :: "output_config option"

definition no_filters :: filter_config where
  "no_filters = \<lparr>locations = None, keywords_cfg = None, date_range = None\<rparr>"

text \<open>\<open>re.sub(r'[^\w\s-]', '', location).strip().replace(' ', '_')\<close>.\<close>

definition is_word :: "char \<Rightarrow> bool" where
  "is_word c = (c \<in> set (''abcdefghijklmnopqrstuvwxyz'' @ ''ABCDEFGHIJKLMNOPQRSTUVWXYZ''
                          @ ''0123456789_''))"

definition safe_location :: "string \<Rightarrow> string" where
  "safe_location loc =
     map (\<lambda>c. if c = CHR '' '' then CHR ''_'' else c)
       (strip (filter (\<lambda>c. is_word c \<or> isspace c \<or> c = CHR ''-'') loc))"

text \<open>The files \<open>generate_calendars\<close> writes, in order: name and calendar.\<close>

definition generate_calendars ::
  "pylib \<Rightarrow> web \<Rightarrow> source list \<Rightarrow> config \<Rightarrow> error + (string \<times> calendar) list" where
  "generate_calendars lib w sources cfg =
     (let self_name = get_or (calendar_name cfg) ''My Events'';
          fcfg = get_or (filters cfg) no_filters;
          main_file = (case outputs cfg of None \<Rightarrow> ''events.ics''
                       | Some oc \<Rightarrow> get_or (main_calendar oc) ''events.ics'');
          loc_on = (case outputs cfg of None \<Rightarrow> False | Some oc \<Rightarrow> by_location oc);
          month_on = (case outputs cfg of None \<Rightarrow> False | Some oc \<Rightarrow> by_month oc)
      in
      bind_err (collect_events lib w sources) (\<lambda>all_events.
      bind_err (filter_events (parse lib) fcfg all_events) (\<lambda>filtered_events.
        Inr ([(main_file, generate lib self_name filtered_events None)]
             @ (if loc_on then
                  map (\<lambda>(loc, events).
                         (''events_'' @ safe_location loc @ ''.ics'',
                          generate lib self_name events (Some (''Events - '' @ loc))))
                      (get_location_groups filtered_events)
                else [])
             @ (if month_on then
                  map (\<lambda>(month_key, events).
                         (''events_'' @ month_key @ ''.ics'',
                          generate lib self_name events (Some (''Events - '' @ month_key))))
                      (group_by_month lib filtered_events)
                else [])))))"

subsection \<open>Notions used to state the properties\<close>

text \<open>
  The point in time a datetime denotes on its own scale: the wall clock of a naive value,
  the instant of an aware one. Two datetimes can be ordered by the program when both are
  naive or both are aware; a bound that is not configured is compared with nothing.
\<close>

definition instant :: "datetime \<Rightarrow> int" where
  "instant d = (case d of Naive a \<Rightarrow> a | Aware a x \<Rightarrow> a - x)"

definition comparable :: "datetime option \<Rightarrow> datetime \<Rightarrow> bool" where
  "comparable b d = (case b of None \<Rightarrow> True | Some s \<Rightarrow> is_aware s = is_aware d)"

definition all_comparable :: "datetime option \<Rightarrow> datetime option \<Rightarrow> event list \<Rightarrow> bool" where
  "all_comparable lo hi events =
     list_all (\<lambda>e. case start e of None \<Rightarrow> True | Some d \<Rightarrow> comparable lo d \<and> comparable hi d)
       events"

text \<open>The date-range rule in the words of the specification: a record is kept when it
  has a start that is neither before the lower bound nor after the upper bound, a bound
  that is absent excluding nothing.\<close>

definition date_kept :: "datetime option \<Rightarrow> datetime option \<Rightarrow> event \<Rightarrow> bool" where
  "date_kept lo hi e =
     (case start e of
        None \<Rightarrow> False
      | Some d \<Rightarrow> (case lo of None \<Rightarrow> True | Some s \<Rightarrow> instant s \<le> instant d)
                \<and> (case hi of None \<Rightarrow> True | Some t \<Rightarrow> instant d \<le> instant t))"

text \<open>The grouping rule for a location with a comma in the words of the specification:
  split on commas, trim each segment, take the last segment that is not empty.\<close>

definition last_nonempty_segment :: "string \<Rightarrow> string option" where
  "last_nonempty_segment s =
     (case filter (\<lambda>p. p \<noteq> []) (map strip (split CHR '','' s)) of
        [] \<Rightarrow> None
      | p # ps \<Rightarrow> Some (last (p # ps)))"

text \<open>An absolute URL begins with a scheme and a colon; a scheme is a letter followed
  by letters, digits, \<open>+\<close>, \<open>-\<close> or \<open>.\<close> (RFC 3986).\<close>

definition is_alpha :: "char \<Rightarrow> bool" where
  "is_alpha c = (c \<in> set (''abcdefghijklmnopqrstuvwxyz'' @ ''ABCDEFGHIJKLMNOPQRSTUVWXYZ''))"

definition is_scheme_char :: "char \<Rightarrow> bool" where
  "is_scheme_char c = (is_alpha c \<or> c \<in> set ''0123456789+-.'')"

definition is_absolute :: "string \<Rightarrow> bool" where
  "is_absolute s =
     (case takeWhile (\<lambda>c. c \<noteq> CHR '':'') s of
        [] \<Rightarrow> False
      | c # cs \<Rightarrow> CHR '':'' \<in> set s \<and> is_alpha c \<and> list_all is_scheme_char cs)"

subsection \<open>Sample inputs\<close>

text \<open>A library whose date parser knows three texts, and sample records.\<close>

definition sample_parse :: "string \<Rightarrow> datetime option" where
  "sample_parse s =
     (if s = ''2024-03-01'' then Some (Naive 100)
      else if s = ''2024-03-31'' then Some (Naive 130)
      else if s = ''2024-03-15T10:00:00+01:00'' then Some (Aware 115 1)
      else None)"

definition sample_lib :: pylib where
  "sample_lib =
     \<lparr>parse = sample_parse, parse_fuzzy = sample_parse, hash = (\<lambda>s. int (length s)),
      now = Naive 200, str_datetime = (\<lambda>d. ''2024''), strftime_Ym = (\<lambda>d. ''2024-03''),
      urljoin = (\<lambda>b h. ''https://example.org'' @ h)\<rparr>"

definition sample_event :: "string \<Rightarrow> datetime option \<Rightarrow> string \<Rightarrow> event" where
  "sample_event t s l =
     \<lparr>title = Some t, start = s, end_time = None, location = Some l,
      description = Some [], url = Some []\<rparr>"

definition sample_dates :: filter_config where
  "sample_dates =
     \<lparr>locations = None, keywords_cfg = None,
      date_range = Some \<lparr>date_enabled = True, start_date = Some ''2024-03-01'',
                          end_date = Some ''soon''\<rparr>\<rparr>"

definition sample_terms :: filter_config where
  "sample_terms =
     \<lparr>locations = Some \<lparr>enabled = True, include_terms = [''London''],
                         exclude_terms = [''don'']\<rparr>,
      keywords_cfg = Some \<lparr>enabled = True, include_terms = [''Jazz''],
                            exclude_terms = [''workshop'']\<rparr>,
      date_range = None\<rparr>"

definition sample_selectors :: selectors where
  "sample_selectors =
     [''container'' \<mapsto> ''.event'', ''title'' \<mapsto> ''h2'', ''date'' \<mapsto> ''time'', ''url'' \<mapsto> ''a'']"

definition sample_element :: "string \<Rightarrow> element" where
  "sample_element h = (\<lambda>s.
     if s = ''h2'' then Inr (Some \<lparr>node_text = '' Jazz Night '', node_href = None\<rparr>)
     else if s = ''time'' then Inr (Some \<lparr>node_text = ''2024-03-01'', node_href = None\<rparr>)
     else if s = ''a'' then Inr (Some \<lparr>node_text = ''more'', node_href = Some h\<rparr>)
     else Inr None)"

definition sample_ld :: ld_object where
  "sample_ld =
     \<lparr>at_type = Some ''Event'', name = None, startDate = Some ''2024-03-01'', endDate = None,
      ld_location = None, ld_description = None, ld_url = None\<rparr>"

definition broken_element :: element where
  "broken_element = (\<lambda>s. Inl SelectorSyntaxError)"

definition sample_soup :: soup where
  "sample_soup =
     \<lparr>select = (\<lambda>s. Inr [sample_element ''/events/1'', broken_element,
                          sample_element ''events/2'']),
      ld_scripts = [Inl JSONDecodeError, Inr (DataItem (Object sample_ld))]\<rparr>"

definition sample_web :: web where
  "sample_web u =
     (if u = ''https://example.org/list'' then Inr sample_soup
      else Inl (RequestException ''timed out''))"

definition sample_config :: config where
  "sample_config =
     \<lparr>calendar_name = None, filters = None,
      outputs = Some \<lparr>main_calendar = None, by_location = True, by_month = True\<rparr>\<rparr>"

definition untitled_event :: event where
  "untitled_event =
     \<lparr>title = Some [], start = Some (Naive 100), end_time = None, location = Some [],
      description = Some [], url = Some []\<rparr>"

text \<open>
  A page with three structured-data blocks. The first is a list of three events, of which
  the second has the number 12 as its street address; the second is a list of one event
  and the number 5; the third is one event.
\<close>

definition listed_ld :: "string \<Rightarrow> json \<Rightarrow> ld_object" where
  "listed_ld nm street =
     \<lparr>at_type = Some ''Event'', name = Some nm, startDate = Some ''2024-03-01'', endDate = None,
      ld_location = Some (LocationObject None
                            (Some (AddressObject (Some street) (Some (JString ''Leeds''))))),
      ld_description = None, ld_url = None\<rparr>"

definition listed_event :: "string \<Rightarrow> event" where
  "listed_event nm =
     \<lparr>title = Some nm, start = Some (Naive 100), end_time = None,
      location = Some ''1 Main St, Leeds'', description = Some [], url = Some []\<rparr>"

definition listing_soup :: soup where
  "listing_soup =
     \<lparr>select = (\<lambda>s. Inr []),
      ld_scripts =
        [Inr (DataList [Object (listed_ld ''A'' (JString ''1 Main St'')),
                        Object (listed_ld ''B'' (JNumber 12)),
                        Object (listed_ld ''C'' (JString ''1 Main St''))]),
         Inr (DataList [Object (listed_ld ''D'' (JString ''1 Main St'')), NotObject]),
         Inr (DataItem (Object (listed_ld ''E'' (JString ''1 Main St''))))]\<rparr>"

definition listing_web :: web where
  "listing_web u =
     (if u = ''https://example.org/listing'' then Inr listing_soup
      else Inl (RequestException ''timed out''))"

section \<open>Properties\<close>

subsection \<open>Strings\<close>

lemma startswith_prefix: "startswith t p = prefix p t"
  by (induction t p rule: startswith.induct) auto

text \<open>\<open>py_in\<close> is containment as a contiguous sublist.\<close>

lemma py_in_sublist: "py_in s t = sublist s t"
  by (induction t) (auto simp: sublist_Cons_right startswith_prefix)

lemma split_not_Nil: "split d s \<noteq> []"
  by (induction s) (auto split: list.splits)

lemma split_no_sep: "d \<notin> set s \<Longrightarrow> split d s = [s]"
  by (induction s) auto

lemma split_sep_length: "d \<in> set s \<Longrightarrow> \<exists>p q ps. split d s = p # q # ps"
proof (induction s)
  case Nil
  then show ?case by simp
next
  case (Cons c s)
  show ?case
  proof (cases "c = d")
    case True
    then show ?thesis using split_not_Nil [of d s] by (cases "split d s") auto
  next
    case False
    then have "d \<in> set s" using Cons.prems by auto
    then obtain p q ps where "split d s = p # q # ps" using Cons.IH by blast
    then show ?thesis using False by simp
  qed
qed

text \<open>The last segment of a split is the text after the last separator.\<close>

lemma last_split: "last (split d s) = rev (takeWhile (\<lambda>c. c \<noteq> d) (rev s))"
proof (induction s)
  case Nil
  then show ?case by simp
next
  case (Cons c s)
  show ?case
  proof (cases "d \<in> set s")
    case False
    then have a: "split d s = [s]" by (rule split_no_sep)
    show ?thesis
    proof (cases "c = d")
      case True
      have tw: "takeWhile (\<lambda>c. c \<noteq> d) (rev s @ [d]) = rev s @ takeWhile (\<lambda>c. c \<noteq> d) [d]"
        using False by (intro takeWhile_append2) auto
      show ?thesis using a True by (simp add: tw)
    next
      case cd: False
      have tw: "takeWhile (\<lambda>c. c \<noteq> d) (rev s @ [c]) = rev s @ takeWhile (\<lambda>c. c \<noteq> d) [c]"
        using False by (intro takeWhile_append2) auto
      show ?thesis using a cd by (simp add: tw)
    qed
  next
    case True
    then obtain p q ps where sp: "split d s = p # q # ps" using split_sep_length by blast
    from True have "takeWhile (\<lambda>c. c \<noteq> d) (rev s @ [c]) = takeWhile (\<lambda>c. c \<noteq> d) (rev s)"
      by (intro takeWhile_append1 [where x = d]) auto
    then show ?thesis using Cons.IH sp by auto
  qed
qed

subsection \<open>Location grouping key\<close>

lemma normalize_Unknown: "normalize_location ''Unknown'' = ''Unknown''"
  by (simp add: normalize_location_def strip_def isspace_def)

lemma normalize_location_last:
  "normalize_location loc =
     (if CHR '','' \<in> set (strip loc)
      then strip (rev (takeWhile (\<lambda>c. c \<noteq> CHR '','') (rev (strip loc))))
      else strip loc)"
  by (simp add: normalize_location_def Let_def split_not_Nil last_map last_split)

text \<open>
  Claim C2, as the code has it. The key of a record without a \<open>location\<close> field is
  \<open>Unknown\<close>. The key of a record whose location is not blank is the trimmed location
  when that has no comma, and otherwise the trimmed text after its last comma, that is
  the last comma-separated segment, empty or not. So the key of
  \<open>123 Main St, Springfield\<close> is \<open>Springfield\<close> and the key of \<open>Springfield\<close> is
  \<open>Springfield\<close>.
\<close>

theorem location_key_last_segment:
  "(location e = None \<longrightarrow> location_key e = ''Unknown'')
   \<and> (\<forall>loc. location e = Some loc \<and> strip loc \<noteq> [] \<longrightarrow>
         location_key e =
           (if CHR '','' \<in> set (strip loc)
            then strip (rev (takeWhile (\<lambda>c. c \<noteq> CHR '','') (rev (strip loc))))
            else strip loc))
   \<and> (location e = Some ''123 Main St, Springfield'' \<longrightarrow> location_key e = ''Springfield'')
   \<and> (location e = Some ''Springfield'' \<longrightarrow> location_key e = ''Springfield'')"
proof -
  have a: "location e = None \<longrightarrow> location_key e = ''Unknown''"
    by (simp add: location_key_def get_or_def normalize_Unknown)
  have b: "location_key e = normalize_location loc" if "location e = Some loc" for loc
    using that by (simp add: location_key_def get_or_def)
  have c: "normalize_location ''123 Main St, Springfield'' = ''Springfield''"
    by (simp add: normalize_location_def strip_def isspace_def)
  have d: "normalize_location ''Springfield'' = ''Springfield''"
    by (simp add: normalize_location_def strip_def isspace_def)
  have e: "location e = Some loc \<and> strip loc \<noteq> [] \<longrightarrow>
         location_key e =
           (if CHR '','' \<in> set (strip loc)
            then strip (rev (takeWhile (\<lambda>c. c \<noteq> CHR '','') (rev (strip loc))))
            else strip loc)" for loc
    using b [of loc] normalize_location_last [of loc] by simp
  have f: "location e = Some ''123 Main St, Springfield'' \<longrightarrow> location_key e = ''Springfield''"
    using b c by simp
  have g: "location e = Some ''Springfield'' \<longrightarrow> location_key e = ''Springfield''"
    using b d by simp
  show ?thesis using a e f g by blast
qed

theorem location_key_last_segment_witness:
  "location_key (sample_event ''a'' None ''12 High St , Leeds '') = ''Leeds''
   \<and> location_key (sample_event ''a'' None ''123 Main St, Springfield'') = ''Springfield''"
proof -
  have l: "location (sample_event ''a'' None ''12 High St , Leeds '') = Some ''12 High St , Leeds ''"
    by (simp add: sample_event_def)
  have s: "strip ''12 High St , Leeds '' = ''12 High St , Leeds''"
    by (simp add: strip_def isspace_def)
  have "location_key (sample_event ''a'' None ''12 High St , Leeds '') = ''Leeds''"
    using location_key_last_segment [of "sample_event ''a'' None ''12 High St , Leeds ''"] l
    by (simp add: s) (simp add: strip_def isspace_def)
  moreover have "location_key (sample_event ''a'' None ''123 Main St, Springfield'') = ''Springfield''"
    using location_key_last_segment [of "sample_event ''a'' None ''123 Main St, Springfield''"]
    by (simp add: sample_event_def)
  ultimately show ?thesis by simp
qed

text \<open>
  Claim C2 as stated fails: a record whose location is the empty string gets the empty
  key, not \<open>Unknown\<close>, and the key of \<open>Springfield,\<close> is the empty last segment, not
  the last non-empty segment \<open>Springfield\<close>.
\<close>

theorem location_key_counterexample:
  "location_key (sample_event ''a'' None '''') = ''''
   \<and> location_key (sample_event ''a'' None '''') \<noteq> ''Unknown''
   \<and> location_key (sample_event ''a'' None ''Springfield,'') = ''''
   \<and> last_nonempty_segment ''Springfield,'' = Some ''Springfield''"
  by (simp add: location_key_def normalize_location_def last_nonempty_segment_def
        sample_event_def get_or_def strip_def isspace_def)

subsection \<open>Filter stages\<close>

lemma location_loop_filter:
  "location_loop inc exc es =
     filter (\<lambda>e. \<not> any_in exc (location_text e) \<and> (inc = [] \<or> any_in inc (location_text e))) es"
  by (induction es) auto

lemma keywords_loop_filter:
  "keywords_loop inc exc es =
     filter (\<lambda>e. \<not> any_in exc (keyword_text e) \<and> (inc = [] \<or> any_in inc (keyword_text e))) es"
  by (induction es) auto

lemma date_range_loop_subseq: "date_range_loop sd ed es = Inr r \<Longrightarrow> subseq r es"
  by (induction es arbitrary: r) (auto split: option.splits sum.splits if_splits)

lemma dt_lt_error: "dt_lt a b = Inl y \<Longrightarrow> y = TypeError"
  by (cases a; cases b) auto

lemma date_range_loop_error: "date_range_loop sd ed es = Inl x \<Longrightarrow> x = TypeError"
proof (induction es)
  case Nil
  then show ?case by simp
next
  case (Cons e es)
  then show ?case
    by (auto simp: before_bound_def after_bound_def dt_gt_def
             split: option.splits sum.splits if_splits dest: dt_lt_error)
qed

lemma dt_lt_comparable: "is_aware a = is_aware b \<Longrightarrow> dt_lt a b = Inr (instant a < instant b)"
  by (cases a; cases b) (auto simp: instant_def)

lemma before_bound_comparable:
  "comparable sd d \<Longrightarrow>
   before_bound sd d = Inr (case sd of None \<Rightarrow> False | Some s \<Rightarrow> instant d < instant s)"
  by (cases sd) (auto simp: comparable_def before_bound_def dt_lt_comparable)

lemma after_bound_comparable:
  "comparable ed d \<Longrightarrow>
   after_bound ed d = Inr (case ed of None \<Rightarrow> False | Some t \<Rightarrow> instant t < instant d)"
  by (cases ed) (auto simp: comparable_def after_bound_def dt_gt_def dt_lt_comparable)

lemma all_comparable_iff:
  "all_comparable lo hi es =
     (\<forall>e\<in>set es. \<forall>d. start e = Some d \<longrightarrow> comparable lo d \<and> comparable hi d)"
  by (auto simp: all_comparable_def list_all_iff split: option.splits)

lemma all_comparable_filter: "all_comparable lo hi es \<Longrightarrow> all_comparable lo hi (filter P es)"
  by (simp add: all_comparable_def list_all_iff)

lemma date_range_loop_filter:
  "all_comparable lo hi es \<Longrightarrow> date_range_loop lo hi es = Inr (filter (date_kept lo hi) es)"
proof (induction es)
  case Nil
  then show ?case by simp
next
  case (Cons e es)
  then have IH: "date_range_loop lo hi es = Inr (filter (date_kept lo hi) es)"
    by (simp add: all_comparable_def)
  show ?case
  proof (cases "start e")
    case None
    then have "\<not> date_kept lo hi e" by (simp add: date_kept_def)
    then show ?thesis using IH None by simp
  next
    case (Some d)
    then have c: "comparable lo d" "comparable hi d"
      using Cons.prems by (auto simp: all_comparable_def)
    have k: "date_kept lo hi e =
               (\<not> (case lo of None \<Rightarrow> False | Some s \<Rightarrow> instant d < instant s)
                \<and> \<not> (case hi of None \<Rightarrow> False | Some t \<Rightarrow> instant t < instant d))"
      using Some by (cases lo; cases hi) (auto simp: date_kept_def)
    show ?thesis using Some IH k
      by (simp add: before_bound_comparable [OF c(1)] after_bound_comparable [OF c(2)])
  qed
qed

lemma dt_eq_instant: "dt_eq a b \<Longrightarrow> instant a = instant b \<and> is_aware a = is_aware b"
  by (cases a; cases b) (auto simp: instant_def)

text \<open>
  The date-range stage on starts it can order. When every start present in the list can
  be ordered against the configured bounds, the stage returns exactly the records that
  have a start lying between the bounds, both bounds included, in their order: a record
  without a start is dropped, a record whose start equals a bound is not excluded by that
  bound, a record before the lower or after the upper bound is dropped. A configured
  bound that the parser cannot read is no bound and no error.
\<close>

lemma date_range_comparable:
  "(all_comparable (lower_bound p cfg) (upper_bound p cfg) evs \<longrightarrow>
      filter_by_date_range p cfg evs
        = Inr (filter (date_kept (lower_bound p cfg) (upper_bound p cfg)) evs))
   \<and> (\<forall>d s. start e = Some d \<and> dt_eq d s \<longrightarrow>
         date_kept (Some s) None e \<and> date_kept None (Some s) e \<and> date_kept (Some s) (Some s) e)
   \<and> (\<forall>sec s. date_range cfg = Some sec \<and> start_date sec = Some s \<and> p s = None
         \<longrightarrow> lower_bound p cfg = None)
   \<and> (\<forall>sec s. date_range cfg = Some sec \<and> end_date sec = Some s \<and> p s = None
         \<longrightarrow> upper_bound p cfg = None)"
proof -
  have a: "filter_by_date_range p cfg evs
        = Inr (filter (date_kept (lower_bound p cfg) (upper_bound p cfg)) evs)"
    if "all_comparable (lower_bound p cfg) (upper_bound p cfg) evs"
    using that unfolding filter_by_date_range_def by (rule date_range_loop_filter)
  have b: "date_kept (Some s) None e \<and> date_kept None (Some s) e \<and> date_kept (Some s) (Some s) e"
    if "start e = Some d \<and> dt_eq d s" for d s
    using that dt_eq_instant [of d s] by (simp add: date_kept_def)
  have c: "lower_bound p cfg = None"
    if "date_range cfg = Some sec \<and> start_date sec = Some s \<and> p s = None" for sec s
    using that by (simp add: lower_bound_def parse_bound_def)
  have d: "upper_bound p cfg = None"
    if "date_range cfg = Some sec \<and> end_date sec = Some s \<and> p s = None" for sec s
    using that by (simp add: upper_bound_def parse_bound_def)
  show ?thesis using a b c d by blast
qed

lemma date_range_comparable_example:
  "filter_by_date_range sample_parse sample_dates
     [sample_event ''a'' (Some (Naive 100)) [], sample_event ''b'' None [],
      sample_event ''c'' (Some (Naive 99)) [], sample_event ''d'' (Some (Naive 990)) []]
   = Inr [sample_event ''a'' (Some (Naive 100)) [], sample_event ''d'' (Some (Naive 990)) []]
   \<and> upper_bound sample_parse sample_dates = None"
proof -
  have lo: "lower_bound sample_parse sample_dates = Some (Naive 100)"
    by (simp add: lower_bound_def parse_bound_def sample_dates_def sample_parse_def)
  have hi: "upper_bound sample_parse sample_dates = None"
    by (simp add: upper_bound_def parse_bound_def sample_dates_def sample_parse_def)
  show ?thesis
    using date_range_comparable [of sample_parse sample_dates
      "[sample_event ''a'' (Some (Naive 100)) [], sample_event ''b'' None [],
        sample_event ''c'' (Some (Naive 99)) [], sample_event ''d'' (Some (Naive 990)) []]"]
    by (simp add: lo hi all_comparable_def comparable_def date_kept_def instant_def
          sample_event_def)
qed

text \<open>
  Claim C5 at a list that mixes the two kinds of datetime. The lower bound is the naive
  datetime the parser reads from \<open>2024-03-01\<close>; the first record starts at that very
  datetime, the second has an offset-aware start. The comparison of the second start with
  the bound raises \<open>TypeError\<close>, nothing catches it, and the stage returns no list: the
  record whose start equals the bound is not kept.
\<close>

theorem date_range_mixed_kinds:
  "filter_by_date_range sample_parse sample_dates
     [sample_event ''a'' (Some (Naive 100)) [], sample_event ''b'' (Some (Aware 115 1)) []]
     = Inl TypeError
   \<and> lower_bound sample_parse sample_dates = Some (Naive 100)
   \<and> dt_eq (Naive 100) (Naive 100)"
  by (simp add: filter_by_date_range_def lower_bound_def upper_bound_def parse_bound_def
        sample_dates_def sample_parse_def sample_event_def before_bound_def after_bound_def)

text \<open>
  Claim C7. \<open>filter_events\<close> is the location stage, then the keyword stage, then the
  date-range stage, each applied only when its section is enabled and each to the
  output of the one before; with all three sections disabled it returns its input.
\<close>

theorem filter_events_order:
  "filter_events p cfg evs
     = (if date_section_enabled (date_range cfg) then filter_by_date_range p cfg else Inr)
         ((if section_enabled (keywords_cfg cfg) then filter_by_keywords cfg else id)
            ((if section_enabled (locations cfg) then filter_by_location cfg else id) evs))
   \<and> (\<not> section_enabled (locations cfg) \<and> \<not> section_enabled (keywords_cfg cfg)
        \<and> \<not> date_section_enabled (date_range cfg)
        \<longrightarrow> filter_events p cfg evs = Inr evs)"
  by (simp add: filter_events_def Let_def)

theorem filter_events_order_witness:
  "filter_events sample_parse no_filters [sample_event ''a'' None ''x'']
     = Inr [sample_event ''a'' None ''x'']"
  using filter_events_order [of sample_parse no_filters "[sample_event ''a'' None ''x'']"]
  by (simp add: no_filters_def section_enabled_def date_section_enabled_def)

text \<open>
  Claim C8. In the location stage and in the keyword stage, a record whose text (the
  location, or title, a space and description) contains, letter case ignored, an
  exclude term and an include term is not in the output of the stage.
\<close>

theorem exclude_wins:
  "(ex \<in> set (section_exclude (locations cfg))
      \<and> sublist (lower ex) (lower (get_or (location e) []))
      \<and> inc \<in> set (section_include (locations cfg))
      \<and> sublist (lower inc) (lower (get_or (location e) []))
      \<longrightarrow> e \<notin> set (filter_by_location cfg evs))
   \<and> (ex \<in> set (section_exclude (keywords_cfg cfg))
      \<and> sublist (lower ex) (lower (get_or (title e) [] @ '' '' @ get_or (description e) []))
      \<and> inc \<in> set (section_include (keywords_cfg cfg))
      \<and> sublist (lower inc) (lower (get_or (title e) [] @ '' '' @ get_or (description e) []))
      \<longrightarrow> e \<notin> set (filter_by_keywords cfg evs))"
  by (auto simp: filter_by_location_def filter_by_keywords_def location_loop_filter
        keywords_loop_filter any_in_def list_ex_iff py_in_sublist location_text_def
        keyword_text_def)

theorem exclude_wins_witness:
  "sample_event ''Jazz Workshop'' None ''LONDON''
     \<notin> set (filter_by_location sample_terms [sample_event ''Jazz Workshop'' None ''LONDON''])
   \<and> sample_event ''Jazz Workshop'' None ''LONDON''
     \<notin> set (filter_by_keywords sample_terms [sample_event ''Jazz Workshop'' None ''LONDON''])"
proof -
  let ?e = "sample_event ''Jazz Workshop'' None ''LONDON''"
  have loc: "lower (get_or (location ?e) []) = ''london''"
    by (simp add: sample_event_def get_or_def lower_def lower_char_def)
  have kw: "lower (get_or (title ?e) [] @ '' '' @ get_or (description ?e) []) = ''jazz workshop ''"
    by (simp add: sample_event_def get_or_def lower_def lower_char_def)
  have t: "lower ''don'' = ''don''" "lower ''London'' = ''london''"
     "lower ''workshop'' = ''workshop''" "lower ''Jazz'' = ''jazz''"
    by (simp_all add: lower_def lower_char_def)
  have s: "sublist ''don'' ''london''" "sublist ''london'' ''london''"
     "sublist ''workshop'' ''jazz workshop ''" "sublist ''jazz'' ''jazz workshop ''"
    unfolding py_in_sublist [symmetric] by simp_all
  have m: "section_exclude (locations sample_terms) = [''don'']"
     "section_include (locations sample_terms) = [''London'']"
     "section_exclude (keywords_cfg sample_terms) = [''workshop'']"
     "section_include (keywords_cfg sample_terms) = [''Jazz'']"
    by (simp_all add: sample_terms_def section_exclude_def section_include_def)
  show ?thesis
    using exclude_wins [of "''don''" sample_terms ?e "''London''" "[?e]"]
      exclude_wins [of "''workshop''" sample_terms ?e "''Jazz''" "[?e]"]
    unfolding loc kw t m by (simp add: s)
qed

text \<open>
  Whatever list \<open>filter_events\<close> returns is a subsequence of its input: the same records,
  unchanged, none more often than in the input, in the same order. The only exception it
  can raise is the \<open>TypeError\<close> of the date-range stage, and it returns a list whenever
  the starts can be ordered against the configured bounds.
\<close>

lemma filter_events_returned_subseq:
  "(\<forall>out. filter_events p cfg evs = Inr out \<longrightarrow> subseq out evs)
   \<and> (\<forall>x. filter_events p cfg evs = Inl x
         \<longrightarrow> x = TypeError \<and> date_section_enabled (date_range cfg))
   \<and> (all_comparable (lower_bound p cfg) (upper_bound p cfg) evs
         \<longrightarrow> (\<exists>out. filter_events p cfg evs = Inr out))"
proof -
  let ?l = "if section_enabled (locations cfg) then filter_by_location cfg evs else evs"
  let ?k = "if section_enabled (keywords_cfg cfg) then filter_by_keywords cfg ?l else ?l"
  have l: "subseq ?l evs"
    by (simp add: filter_by_location_def location_loop_filter)
  have k: "subseq ?k ?l"
    by (simp add: filter_by_keywords_def keywords_loop_filter)
  have fe: "filter_events p cfg evs
      = (if date_section_enabled (date_range cfg) then filter_by_date_range p cfg ?k else Inr ?k)"
    by (simp add: filter_events_def Let_def)
  have a: "subseq out evs" if o: "filter_events p cfg evs = Inr out" for out
  proof -
    have "subseq out ?k"
    proof (cases "date_section_enabled (date_range cfg)")
      case True
      then show ?thesis
        using o fe date_range_loop_subseq by (simp add: filter_by_date_range_def)
    next
      case False
      then show ?thesis using o fe by simp
    qed
    then show ?thesis using k l subseq_order.trans by blast
  qed
  have b: "x = TypeError \<and> date_section_enabled (date_range cfg)"
    if "filter_events p cfg evs = Inl x" for x
    using that fe date_range_loop_error
    by (auto simp: filter_by_date_range_def split: if_splits)
  have c: "\<exists>out. filter_events p cfg evs = Inr out"
    if "all_comparable (lower_bound p cfg) (upper_bound p cfg) evs"
  proof -
    have "all_comparable (lower_bound p cfg) (upper_bound p cfg) ?k"
      using that
      by (simp add: filter_by_location_def filter_by_keywords_def location_loop_filter
            keywords_loop_filter all_comparable_filter)
    then show ?thesis
      using fe date_range_loop_filter [of "lower_bound p cfg" "upper_bound p cfg" ?k]
      by (simp add: filter_by_date_range_def)
  qed
  show ?thesis using a b c by blast
qed

lemma filter_events_returned_subseq_example:
  "\<exists>out. filter_events sample_parse sample_dates
            [sample_event ''a'' (Some (Naive 100)) [], sample_event ''b'' None []] = Inr out
         \<and> subseq out [sample_event ''a'' (Some (Naive 100)) [], sample_event ''b'' None []]"
proof -
  have "all_comparable (lower_bound sample_parse sample_dates)
          (upper_bound sample_parse sample_dates)
          [sample_event ''a'' (Some (Naive 100)) [], sample_event ''b'' None []]"
    by (simp add: all_comparable_def comparable_def lower_bound_def upper_bound_def
          parse_bound_def sample_dates_def sample_parse_def sample_event_def)
  then show ?thesis
    using filter_events_returned_subseq [of sample_parse sample_dates
        "[sample_event ''a'' (Some (Naive 100)) [], sample_event ''b'' None []]"]
    by blast
qed

text \<open>
  Claim C10 at a configuration with the date-range section enabled and a record whose
  start is offset-aware while the configured bound is naive: \<open>filter_events\<close> raises
  \<open>TypeError\<close> and returns no list, hence no subsequence of its input.
\<close>

theorem filter_events_mixed_kinds:
  "filter_events sample_parse sample_dates [sample_event ''b'' (Some (Aware 115 1)) []]
     = Inl TypeError"
  by (simp add: filter_events_def filter_by_date_range_def section_enabled_def
        date_section_enabled_def lower_bound_def upper_bound_def parse_bound_def
        sample_dates_def sample_parse_def sample_event_def before_bound_def after_bound_def)

subsection \<open>Records without a start\<close>

lemma generate_loop_append:
  "generate_loop lib (xs @ ys) = generate_loop lib xs @ generate_loop lib ys"
  by (induction xs) (auto split: option.splits)

lemma group_by_month_from_append:
  "group_by_month_from lib g (xs @ ys) = group_by_month_from lib (group_by_month_from lib g xs) ys"
  by (induction xs arbitrary: g) (auto split: option.splits)

lemma group_append_pairs:
  "(\<Union>(k', es) \<in> set (group_append k e g). {k'} \<times> set es)
     = insert (k, e) (\<Union>(k', es) \<in> set g. {k'} \<times> set es)"
proof (induction g)
  case Nil
  show ?case by simp
next
  case (Cons p g)
  obtain a b where p: "p = (a, b)" by (cases p)
  show ?case
  proof (cases "a = k")
    case True
    then show ?thesis using p by auto
  next
    case False
    then show ?thesis using p Cons.IH by auto
  qed
qed

lemma group_by_month_from_pairs:
  "(\<Union>(k, es) \<in> set (group_by_month_from lib g evs). {k} \<times> set es)
     \<subseteq> (\<Union>(k, es) \<in> set g. {k} \<times> set es) \<union> {(k, x). start x \<noteq> None}"
proof (induction evs arbitrary: g)
  case Nil
  then show ?case by auto
next
  case (Cons e evs)
  show ?case
  proof (cases "start e")
    case None
    then show ?thesis using Cons.IH [of g] by simp
  next
    case (Some d)
    then show ?thesis
      using Cons.IH [of "group_append (strftime_Ym lib d) e g"]
      by (auto simp: group_append_pairs)
  qed
qed

lemma get_location_groups_from_pairs:
  "(\<Union>(k, es) \<in> set (get_location_groups_from g evs). {k} \<times> set es)
     = (\<Union>(k, es) \<in> set g. {k} \<times> set es) \<union> (\<lambda>e. (location_key e, e)) ` set evs"
  by (induction evs arbitrary: g) (auto simp: group_append_pairs)

text \<open>
  Claim C6. A record without a start adds nothing to the calendar \<open>generate\<close> builds and
  nothing to the month groups, and is in no month bucket. The location and keyword stages
  do not look at the start: the record is kept exactly when no exclude term matches its
  text and the include list is empty or has a matching term. Location grouping places it
  in the bucket of its key.
\<close>

theorem absent_start:
  "start e = None \<longrightarrow>
     generate lib nm (xs @ e # ys) cn = generate lib nm (xs @ ys) cn
   \<and> group_by_month lib (xs @ e # ys) = group_by_month lib (xs @ ys)
   \<and> (\<forall>k es. (k, es) \<in> set (group_by_month lib evs) \<longrightarrow> e \<notin> set es)
   \<and> (e \<in> set (filter_by_location cfg (xs @ e # ys)) \<longleftrightarrow>
        \<not> any_in (section_exclude (locations cfg)) (location_text e)
        \<and> (section_include (locations cfg) = []
            \<or> any_in (section_include (locations cfg)) (location_text e)))
   \<and> (e \<in> set (filter_by_keywords cfg (xs @ e # ys)) \<longleftrightarrow>
        \<not> any_in (section_exclude (keywords_cfg cfg)) (keyword_text e)
        \<and> (section_include (keywords_cfg cfg) = []
            \<or> any_in (section_include (keywords_cfg cfg)) (keyword_text e)))
   \<and> (\<exists>es. (location_key e, es) \<in> set (get_location_groups (xs @ e # ys)) \<and> e \<in> set es)"
proof
  assume s: "start e = None"
  have a: "generate lib nm (xs @ e # ys) cn = generate lib nm (xs @ ys) cn"
    using s by (simp add: generate_def generate_loop_append)
  have b: "group_by_month lib (xs @ e # ys) = group_by_month lib (xs @ ys)"
    using s by (simp add: group_by_month_def group_by_month_from_append)
  have c: "e \<notin> set es" if "(k, es) \<in> set (group_by_month lib evs)" for k es
  proof
    assume "e \<in> set es"
    then have "(k, e) \<in> (\<Union>(k, es) \<in> set (group_by_month_from lib [] evs). {k} \<times> set es)"
      using that by (force simp: group_by_month_def)
    then have "start e \<noteq> None"
      using group_by_month_from_pairs [of lib "[]" evs] by auto
    then show False using s by simp
  qed
  have d: "e \<in> set (filter_by_location cfg (xs @ e # ys)) \<longleftrightarrow>
        \<not> any_in (section_exclude (locations cfg)) (location_text e)
        \<and> (section_include (locations cfg) = []
            \<or> any_in (section_include (locations cfg)) (location_text e))"
    by (auto simp: filter_by_location_def location_loop_filter)
  have f: "e \<in> set (filter_by_keywords cfg (xs @ e # ys)) \<longleftrightarrow>
        \<not> any_in (section_exclude (keywords_cfg cfg)) (keyword_text e)
        \<and> (section_include (keywords_cfg cfg) = []
            \<or> any_in (section_include (keywords_cfg cfg)) (keyword_text e))"
    by (auto simp: filter_by_keywords_def keywords_loop_filter)
  have g: "\<exists>es. (location_key e, es) \<in> set (get_location_groups (xs @ e # ys)) \<and> e \<in> set es"
    using get_location_groups_from_pairs [of "[]" "xs @ e # ys"]
    by (auto simp: get_location_groups_def)
  show "generate lib nm (xs @ e # ys) cn = generate lib nm (xs @ ys) cn
   \<and> group_by_month lib (xs @ e # ys) = group_by_month lib (xs @ ys)
   \<and> (\<forall>k es. (k, es) \<in> set (group_by_month lib evs) \<longrightarrow> e \<notin> set es)
   \<and> (e \<in> set (filter_by_location cfg (xs @ e # ys)) \<longleftrightarrow>
        \<not> any_in (section_exclude (locations cfg)) (location_text e)
        \<and> (section_include (locations cfg) = []
            \<or> any_in (section_include (locations cfg)) (location_text e)))
   \<and> (e \<in> set (filter_by_keywords cfg (xs @ e # ys)) \<longleftrightarrow>
        \<not> any_in (section_exclude (keywords_cfg cfg)) (keyword_text e)
        \<and> (section_include (keywords_cfg cfg) = []
            \<or> any_in (section_include (keywords_cfg cfg)) (keyword_text e)))
   \<and> (\<exists>es. (location_key e, es) \<in> set (get_location_groups (xs @ e # ys)) \<and> e \<in> set es)"
    using a b c d f g by blast
qed

theorem absent_start_witness:
  "generate sample_lib ''My Events''
       [sample_event ''a'' (Some (Naive 100)) ''x'', sample_event ''Jazz'' None ''Leeds''] None
     = generate sample_lib ''My Events'' [sample_event ''a'' (Some (Naive 100)) ''x''] None
   \<and> group_by_month sample_lib
       [sample_event ''a'' (Some (Naive 100)) ''x'', sample_event ''Jazz'' None ''Leeds'']
     = group_by_month sample_lib [sample_event ''a'' (Some (Naive 100)) ''x'']
   \<and> sample_event ''Jazz'' None ''Leeds''
       \<in> set (filter_by_location no_filters
                 [sample_event ''a'' (Some (Naive 100)) ''x'', sample_event ''Jazz'' None ''Leeds''])
   \<and> sample_event ''Jazz'' None ''Leeds''
       \<in> set (filter_by_keywords no_filters
                 [sample_event ''a'' (Some (Naive 100)) ''x'', sample_event ''Jazz'' None ''Leeds''])"
proof -
  have s: "start (sample_event ''Jazz'' None ''Leeds'') = None"
    by (simp add: sample_event_def)
  have n: "section_exclude (locations no_filters) = []" "section_include (locations no_filters) = []"
    "section_exclude (keywords_cfg no_filters) = []" "section_include (keywords_cfg no_filters) = []"
    by (simp_all add: no_filters_def section_exclude_def section_include_def)
  show ?thesis
    using absent_start [of "sample_event ''Jazz'' None ''Leeds''" sample_lib "''My Events''"
        "[sample_event ''a'' (Some (Naive 100)) ''x'']" "[]" None "[]" no_filters] s
    by (simp add: n any_in_def)
qed

subsection \<open>Summary of an event block\<close>

lemma make_event_summary:
  "filter (\<lambda>p. fst p = ''summary'') (make_event lib e d)
     = [(''summary'', Text (get_or (title e) ''Untitled Event''))]"
  by (simp add: make_event_def split: option.splits)

text \<open>
  Claim C3 at a record with a start whose title is the empty string: the summary of the
  event block is the empty string, not \<open>Untitled Event\<close>. The default of
  \<open>event_data.get('title', 'Untitled Event')\<close> is used only when the key is absent.
\<close>

theorem empty_title_summary:
  "summaries (generate sample_lib ''My Events'' [sample_event '''' (Some (Naive 100)) ''Leeds''] None)
     = [Text '''']
   \<and> Text '''' \<noteq> Text ''Untitled Event''"
  by (simp add: summaries_def generate_def make_event_summary sample_event_def get_or_def)

subsection \<open>Resolution of links\<close>

lemma bind_err_Inr: "bind_err m f = Inr r \<Longrightarrow> \<exists>v. m = Inr v \<and> f v = Inr r"
  by (cases m) (auto simp: bind_err_def)

lemma extract_url_href:
  "truthy_text selector \<Longrightarrow> elem (get_or selector []) = Inr (Some n) \<Longrightarrow>
   node_href n = Some href \<Longrightarrow> href \<noteq> [] \<Longrightarrow>
   extract_url lib base elem selector
     = Inr (if startswith href ''/'' then urljoin lib base href else href)"
  by (simp add: extract_url_def bind_err_def truthy_text_def get_or_def Let_def)

text \<open>
  Claim C4, as the code has it. When the url sub-selector matches a node with a non-empty
  \<open>href\<close>, the url of the record is \<open>urljoin\<close> of the base URL and the href when the
  href begins with \<open>/\<close>, and the href itself, unchanged, otherwise.
\<close>

theorem url_resolution:
  "truthy_text (sel ''url'') \<and> elem (get_or (sel ''url'') []) = Inr (Some n)
     \<and> node_href n = Some href \<and> href \<noteq> [] \<and> html_event lib base sel elem = Inr ev
   \<longrightarrow> url ev = Some (if startswith href ''/'' then urljoin lib base href else href)"
proof
  assume a: "truthy_text (sel ''url'') \<and> elem (get_or (sel ''url'') []) = Inr (Some n)
     \<and> node_href n = Some href \<and> href \<noteq> [] \<and> html_event lib base sel elem = Inr ev"
  then have u: "extract_url lib base elem (sel ''url'')
     = Inr (if startswith href ''/'' then urljoin lib base href else href)"
    by (simp add: extract_url_href)
  from a have "html_event lib base sel elem = Inr ev" by simp
  then show "url ev = Some (if startswith href ''/'' then urljoin lib base href else href)"
    unfolding html_event_def using u
    by (auto dest!: bind_err_Inr)
qed

theorem url_resolution_witness:
  "map_sum id url (html_event sample_lib ''https://example.org/list'' sample_selectors
      (sample_element ''/events/1'')) = Inr (Some ''https://example.org/events/1'')"
proof -
  have e: "html_event sample_lib ''https://example.org/list'' sample_selectors
      (sample_element ''/events/1'')
     = Inr \<lparr>title = Some ''Jazz Night'', start = Some (Naive 100), end_time = None,
            location = Some [], description = Some [],
            url = Some ''https://example.org/events/1''\<rparr>"
    by (simp add: html_event_def extract_text_def extract_date_def extract_url_def bind_err_def
          sample_selectors_def sample_element_def truthy_text_def get_or_def strip_def
          isspace_def sample_lib_def sample_parse_def)
  show ?thesis
    using url_resolution [of sample_selectors "sample_element ''/events/1''"
        "\<lparr>node_text = ''more'', node_href = Some ''/events/1''\<rparr>" "''/events/1''"
        sample_lib "''https://example.org/list''"] e
    by (simp add: sample_selectors_def sample_element_def truthy_text_def get_or_def
          sample_lib_def)
qed

text \<open>
  Claim C4 as stated fails: the relative href \<open>events/1\<close> does not begin with \<open>/\<close> and
  becomes the url of the record as it is; it is not an absolute URL.
\<close>

theorem url_resolution_counterexample:
  "map_sum id url (html_event sample_lib ''https://example.org/list'' sample_selectors
      (sample_element ''events/1'')) = Inr (Some ''events/1'')
   \<and> \<not> is_absolute ''events/1''
   \<and> is_absolute ''https://example.org/list''"
  by (simp add: html_event_def extract_text_def extract_date_def extract_url_def bind_err_def
        sample_selectors_def sample_element_def truthy_text_def get_or_def strip_def
        isspace_def sample_lib_def sample_parse_def is_absolute_def is_alpha_def
        is_scheme_char_def)

subsection \<open>Sources\<close>

lemma html_loop_append:
  "html_loop lib u sel (xs @ ys)
     = (fst (html_loop lib u sel xs) @ fst (html_loop lib u sel ys),
        snd (html_loop lib u sel xs) @ snd (html_loop lib u sel ys))"
  by (induction xs) (auto simp: Let_def split: prod.splits sum.splits)

lemma schema_loop_append:
  "schema_loop lib (xs @ ys) = schema_loop lib xs @ schema_loop lib ys"
  by (induction xs) auto

text \<open>Neither source lets an exception out, and a failed fetch, or a container selector
  that raises, gives the empty list and one diagnostic.\<close>

lemma fetch_events_returns: "\<exists>evs out. fetch_events lib w src = Inr (evs, out)"
proof (cases src)
  case (GenericHTMLSource v s)
  then show ?thesis
    by (cases "html_try lib w v s") (auto simp: html_fetch_events_def)
next
  case (SchemaOrgSource v)
  then show ?thesis
    by (cases "w v") (auto simp: schema_fetch_events_def bind_err_def)
qed

lemma fetch_failed:
  "w u = Inl x \<Longrightarrow>
   fetch_events lib w (GenericHTMLSource u sel) = Inr ([], [ErrorFetching u x])
   \<and> fetch_events lib w (SchemaOrgSource u) = Inr ([], [ErrorFetching u x])"
  by (simp add: html_fetch_events_def html_try_def schema_fetch_events_def bind_err_def)

lemma container_failed:
  "w u = Inr sp \<Longrightarrow> select sp (get_or (sel ''container'') ''.event'') = Inl x \<Longrightarrow>
   fetch_events lib w (GenericHTMLSource u sel) = Inr ([], [ErrorFetching u x])"
  by (simp add: html_fetch_events_def html_try_def bind_err_def)

text \<open>The selector-based source decides element by element: an element whose extraction
  raises gives a diagnostic and no record, an element with a title and a start gives its
  record, whatever the other elements do.\<close>

lemma html_loop_elements:
  "html_loop lib u sel elems
     = (concat (map (\<lambda>el. case html_event lib u sel el of
                             Inl x \<Rightarrow> []
                           | Inr ev \<Rightarrow> if truthy_text (title ev) \<and> start ev \<noteq> None then [ev]
                                       else []) elems),
        concat (map (\<lambda>el. case html_event lib u sel el of
                             Inl x \<Rightarrow> [ErrorParsingEvent x]
                           | Inr ev \<Rightarrow> []) elems))"
  by (induction elems) (auto simp: Let_def split: prod.splits sum.splits)

text \<open>The structured-data source decides block by block, and inside a block the first
  item whose parsing raises ends the block: the records of the items before it are
  kept, the items after it are not parsed.\<close>

lemma append_events_prefix:
  "fst (append_events lib obs)
     = map (\<lambda>ob. projr (parse_event lib ob)) (takeWhile (\<lambda>ob. \<not> isl (parse_event lib ob)) obs)"
  by (induction obs) (auto split: sum.splits prod.splits)

lemma schema_loop_blocks:
  "schema_loop lib scs = concat (map (\<lambda>sc. fst (script_events lib sc)) scs)"
  by (induction scs) auto

lemma sample_html_event:
  "html_event sample_lib ''https://example.org/list'' sample_selectors (sample_element h)
     = Inr \<lparr>title = Some ''Jazz Night'', start = Some (Naive 100), end_time = None,
            location = Some [], description = Some [],
            url = Some (if h = [] then [] else if startswith h ''/'' then ''https://example.org'' @ h else h)\<rparr>"
  by (simp add: html_event_def extract_text_def extract_date_def extract_url_def bind_err_def
        sample_selectors_def sample_element_def truthy_text_def get_or_def strip_def
        isspace_def sample_lib_def sample_parse_def)

lemma broken_html_event:
  "html_event sample_lib ''https://example.org/list'' sample_selectors broken_element
     = Inl SelectorSyntaxError"
  by (simp add: html_event_def extract_text_def bind_err_def sample_selectors_def
        broken_element_def truthy_text_def get_or_def)

lemma sample_script_events:
  "script_events sample_lib (Inr (DataItem (Object sample_ld))) = ([untitled_event], None)"
  "script_events sample_lib (Inl JSONDecodeError) = ([], Some JSONDecodeError)"
  by (simp_all add: script_events_def bind_err_def sample_ld_def parse_event_def parse_date_def
        extract_location_def truthy_text_def get_or_def sample_lib_def sample_parse_def
        untitled_event_def)

lemma listed_parse_event:
  "parse_event sample_lib (listed_ld nm (JString ''1 Main St'')) = Inr (listed_event nm)"
  "parse_event sample_lib (listed_ld nm (JNumber 12)) = Inl TypeError"
  by (simp_all add: parse_event_def parse_date_def extract_location_def bind_err_def
        listed_ld_def listed_event_def truthy_text_def get_or_def sample_lib_def
        sample_parse_def)

text \<open>
  Claim C9 at a page with three structured-data blocks. The first block is a list of the
  events A, B and C, where the street address of B is the number 12; parsing B raises
  \<open>TypeError\<close>, and the exception ends the whole block: A, appended before, is returned,
  and C, which parses to a record on its own, is never parsed. The second block is a
  list of the event D and the number 5; the number has no \<open>get\<close>, the block raises
  before anything is appended, and D, which parses to a record on its own, is lost. Only
  the third block, the single event E, is processed in full. So \<open>fetch_events\<close> returns
  A and E, with no diagnostic: the failure of one item does not skip that item alone, and
  the remaining items C and D are not processed, against the claim. The selector-based
  source does what the claim says: of three elements whose second raises, it returns the
  records of the first and the third, and a diagnostic for the second.
\<close>

theorem fetch_loses_sibling_events:
  "fetch_events sample_lib listing_web (SchemaOrgSource ''https://example.org/listing'')
     = Inr ([listed_event ''A'', listed_event ''E''], [])
   \<and> parse_event sample_lib (listed_ld ''B'' (JNumber 12)) = Inl TypeError
   \<and> parse_event sample_lib (listed_ld ''C'' (JString ''1 Main St'')) = Inr (listed_event ''C'')
   \<and> parse_event sample_lib (listed_ld ''D'' (JString ''1 Main St'')) = Inr (listed_event ''D'')
   \<and> fetch_events sample_lib sample_web
         (GenericHTMLSource ''https://example.org/list'' sample_selectors)
     = Inr ([\<lparr>title = Some ''Jazz Night'', start = Some (Naive 100), end_time = None,
              location = Some [], description = Some [],
              url = Some ''https://example.org/events/1''\<rparr>,
             \<lparr>title = Some ''Jazz Night'', start = Some (Naive 100), end_time = None,
              location = Some [], description = Some [], url = Some ''events/2''\<rparr>],
            [ErrorParsingEvent SelectorSyntaxError])"
proof -
  have b1: "script_events sample_lib
              (Inr (DataList [Object (listed_ld ''A'' (JString ''1 Main St'')),
                              Object (listed_ld ''B'' (JNumber 12)),
                              Object (listed_ld ''C'' (JString ''1 Main St''))]))
            = ([listed_event ''A''], Some TypeError)"
    by (simp add: script_events_def bind_err_def listed_parse_event)
       (simp add: listed_ld_def)
  have b2: "script_events sample_lib
              (Inr (DataList [Object (listed_ld ''D'' (JString ''1 Main St'')), NotObject]))
            = ([], Some AttributeError)"
    by (simp add: script_events_def bind_err_def)
  have b3: "script_events sample_lib
              (Inr (DataItem (Object (listed_ld ''E'' (JString ''1 Main St'')))))
            = ([listed_event ''E''], None)"
    by (simp add: script_events_def listed_parse_event)
       (simp add: listed_ld_def)
  have s: "fetch_events sample_lib listing_web (SchemaOrgSource ''https://example.org/listing'')
     = Inr ([listed_event ''A'', listed_event ''E''], [])"
    by (simp add: schema_fetch_events_def bind_err_def listing_web_def listing_soup_def b1 b2 b3)
  have h: "fetch_events sample_lib sample_web
         (GenericHTMLSource ''https://example.org/list'' sample_selectors)
     = Inr ([\<lparr>title = Some ''Jazz Night'', start = Some (Naive 100), end_time = None,
              location = Some [], description = Some [],
              url = Some ''https://example.org/events/1''\<rparr>,
             \<lparr>title = Some ''Jazz Night'', start = Some (Naive 100), end_time = None,
              location = Some [], description = Some [], url = Some ''events/2''\<rparr>],
            [ErrorParsingEvent SelectorSyntaxError])"
    by (simp add: html_fetch_events_def html_try_def bind_err_def sample_web_def sample_soup_def
          sample_html_event broken_html_event truthy_text_def)
  show ?thesis using s h by (simp add: listed_parse_event)
qed

lemma html_loop_titled:
  "ev \<in> set (fst (html_loop lib u sel elems)) \<Longrightarrow> truthy_text (title ev) \<and> start ev \<noteq> None"
  by (induction elems arbitrary: ev) (auto simp: Let_def split: prod.splits sum.splits if_splits)

text \<open>
  Claim C1 at a page with one structured-data event that has a start date and no name: the
  structured-data source returns a record whose title is the empty string, and with no
  filter configured the record is an event entry of the main calendar, of the calendar of
  its location group and of the calendar of its month. The HTML source drops such a
  record (lemma \<open>html_loop_titled\<close>); the structured-data source has no such check.
\<close>

theorem untitled_event_encoded:
  "fetch_events sample_lib sample_web (SchemaOrgSource ''https://example.org/list'')
     = Inr ([untitled_event], [])
   \<and> title untitled_event = Some []
   \<and> map_sum id (map (\<lambda>fc. (fst fc, summaries (snd fc))))
       (generate_calendars sample_lib sample_web [SchemaOrgSource ''https://example.org/list'']
          sample_config)
     = Inr [(''events.ics'', [Text []]), (''events_.ics'', [Text []]),
            (''events_2024-03.ics'', [Text []])]"
proof -
  have f: "fetch_events sample_lib sample_web (SchemaOrgSource ''https://example.org/list'')
     = Inr ([untitled_event], [])"
    by (simp add: schema_fetch_events_def bind_err_def sample_web_def sample_soup_def
          sample_script_events)
  have c: "collect_events sample_lib sample_web [SchemaOrgSource ''https://example.org/list'']
     = Inr [untitled_event]"
    using f by (simp add: bind_err_def)
  have fl: "filter_events (parse sample_lib) no_filters [untitled_event] = Inr [untitled_event]"
    by (simp add: filter_events_def no_filters_def section_enabled_def date_section_enabled_def)
  have k: "get_location_groups [untitled_event] = [([], [untitled_event])]"
    by (simp add: get_location_groups_def location_key_def normalize_location_def
          untitled_event_def get_or_def strip_def)
  have m: "group_by_month sample_lib [untitled_event] = [(''2024-03'', [untitled_event])]"
    by (simp add: group_by_month_def untitled_event_def sample_lib_def)
  have g: "summaries (generate sample_lib nm [untitled_event] cn) = [Text []]" for nm cn
    by (simp add: summaries_def generate_def make_event_summary untitled_event_def get_or_def)
  have sl: "safe_location [] = []"
    by (simp add: safe_location_def strip_def)
  have "map_sum id (map (\<lambda>fc. (fst fc, summaries (snd fc))))
       (generate_calendars sample_lib sample_web [SchemaOrgSource ''https://example.org/list'']
          sample_config)
     = Inr [(''events.ics'', [Text []]), (''events_.ics'', [Text []]),
            (''events_2024-03.ics'', [Text []])]"
    by (simp add: generate_calendars_def Let_def bind_err_def c fl k m g sl sample_config_def
          get_or_def del: collect_events.simps)
  then show ?thesis using f by (simp add: untitled_event_def)
qed

end
